theory Spec2Isabelle
  imports Main "HOL-Library.Word" "HOL-Library.Sublist"
begin

section \<open>Machine types and byte layout\<close>

type_synonym u8 = "8 word"
type_synonym u16 = "16 word"
type_synonym u32 = "32 word"

text \<open>The terminating byte of a C string.\<close>

definition NUL :: char where
  "NUL = CHR 0x00"

text \<open>
  Modelled from the spec: the byte order of a multi-byte field is not visible in
  \<^verbatim>\<open>Mgmt.cpp\<close> (the structures are handed to the transport as they lie in memory);
  section 6 of the specification fixes every field as little-endian.
\<close>

definition le16 :: "u16 \<Rightarrow> u8 list" where
  "le16 x = [ucast x, ucast (drop_bit 8 x)]"

definition le32 :: "u32 \<Rightarrow> u8 list" where
  "le32 x = [ucast x, ucast (drop_bit 8 x), ucast (drop_bit 16 x), ucast (drop_bit 24 x)]"

section \<open>Declarations used by Mgmt.cpp\<close>

text \<open>
  Modelled from the spec: \<^verbatim>\<open>HciAdapter::HciHeader\<close> is declared in \<^verbatim>\<open>HciAdapter.h\<close>,
  which is not among the sources. \<^verbatim>\<open>Mgmt.cpp\<close> assigns its members \<^verbatim>\<open>code\<close>,
  \<^verbatim>\<open>controllerId\<close> and \<^verbatim>\<open>dataSize\<close>; the specification gives the header as three
  unsigned 16-bit fields in this order, without padding.
\<close>

record HciHeader =
  code :: u16
  controllerId :: u16
  dataSize :: u16

definition sizeof_HciHeader :: nat where
  "sizeof_HciHeader = 2 + 2 + 2"

definition HciHeader_bytes :: "'a HciHeader_scheme \<Rightarrow> u8 list" where
  "HciHeader_bytes h = le16 (code h) @ le16 (controllerId h) @ le16 (dataSize h)"

text \<open>
  The constants of \<^verbatim>\<open>Mgmt.h\<close> and the name table of \<^verbatim>\<open>HciAdapter.h\<close> that
  \<^verbatim>\<open>Mgmt.cpp\<close> refers to. Neither header is among the sources, so their values are
  parameters of every operation below.
\<close>

record Mgmt_h =
  ESetPoweredCommand :: u16
  ESetBREDRCommand :: u16
  ESetSecureConnectionsCommand :: u16
  ESetBondableCommand :: u16
  ESetConnectableCommand :: u16
  ESetLowEnergyCommand :: u16
  ESetAdvertisingCommand :: u16
  ESetLocalNameCommand :: u16
  EAddAdvertisingCommand :: u16
  kMaxAdvertisingNameLength :: nat
  kMaxAdvertisingShortNameLength :: nat
  kCommandCodeNames :: "string list"

text \<open>
  What the collaborators of \<^verbatim>\<open>Mgmt.cpp\<close> have seen so far: the controller indices
  passed to \<^verbatim>\<open>HciAdapter::sync\<close>, the frames passed to \<^verbatim>\<open>HciAdapter::sendCommand\<close>
  and the messages passed to \<^verbatim>\<open>Logger::warn\<close>, oldest first.
\<close>

record world =
  synced :: "u16 list"
  sent :: "u8 list list"
  warnings :: "string list"

text \<open>
  Modelled from the spec: \<^verbatim>\<open>HciAdapter::sendCommand\<close> is not among the sources. The
  specification treats it as an opaque capability from an encoded frame to a boolean;
  here its answer is any function of the frames sent before and the frame at hand.
\<close>

type_synonym transport = "u8 list list \<Rightarrow> u8 list \<Rightarrow> bool"

definition sendCommand :: "transport \<Rightarrow> u8 list \<Rightarrow> world \<Rightarrow> bool \<times> world" where
  "sendCommand tr frame w = (tr (sent w) frame, w\<lparr>sent := sent w @ [frame]\<rparr>)"

text \<open>Modelled from the spec: \<^verbatim>\<open>HciAdapter::sync\<close> is the initialisation call of the transport.\<close>

definition sync :: "u16 \<Rightarrow> world \<Rightarrow> world" where
  "sync controllerIndex w = w\<lparr>synced := synced w @ [controllerIndex]\<rparr>"

text \<open>Modelled from the spec: \<^verbatim>\<open>Logger::warn\<close> records one warning entry.\<close>

definition warn :: "string \<Rightarrow> world \<Rightarrow> world" where
  "warn msg w = w\<lparr>warnings := warnings w @ [msg]\<rparr>"

text \<open>
  Reading an array outside its bounds has no defined result in C++; the model stops
  there with a fault instead of inventing one.
\<close>

datatype fault = OutOfBoundsRead

section \<open>C library routines\<close>

text \<open>\<^verbatim>\<open>std::string::c_str\<close>: the characters of the string followed by a terminator.\<close>

definition c_str :: "string \<Rightarrow> char list" where
  "c_str s = s @ [NUL]"

text \<open>What \<^verbatim>\<open>%s\<close> reads from a character array: the characters before its first terminator.\<close>

definition strchars :: "char list \<Rightarrow> char list" where
  "strchars src = takeWhile (\<lambda>ch. ch \<noteq> NUL) src"

text \<open>
  \<^verbatim>\<open>snprintf(buf, n, "%s", src)\<close>: the characters read from \<^verbatim>\<open>src\<close>, cut to
  \<^verbatim>\<open>n - 1\<close>, are written to the start of \<^verbatim>\<open>buf\<close> and followed by one
  terminator; the rest of \<^verbatim>\<open>buf\<close> is left as it was.
\<close>

definition snprintf_s :: "char list \<Rightarrow> nat \<Rightarrow> char list \<Rightarrow> char list" where
  "snprintf_s buf n src =
     (if n = 0 then buf
      else (let out = take (n - 1) (strchars src)
            in out @ [NUL] @ drop (length out + 1) buf))"

text \<open>\<^verbatim>\<open>memcpy(&dst[off], src, n)\<close> for \<^verbatim>\<open>off + n\<close> within \<^verbatim>\<open>dst\<close> and \<^verbatim>\<open>n\<close> within \<^verbatim>\<open>src\<close>.\<close>

definition memcpy :: "u8 list \<Rightarrow> nat \<Rightarrow> char list \<Rightarrow> nat \<Rightarrow> u8 list" where
  "memcpy dst off src n = take off dst @ map of_char (take n src) @ drop (off + n) dst"

text \<open>The decimal digits an output stream prints for a non-negative \<^verbatim>\<open>int\<close>.\<close>

definition digit :: "nat \<Rightarrow> char" where
  "digit d = char_of (48 + d)"

function decimal :: "nat \<Rightarrow> string" where
  "decimal n = (if n < 10 then [digit n] else decimal (n div 10) @ [digit (n mod 10)])"
  by pat_completeness auto
termination
  by (relation "measure id") auto

declare decimal.simps [simp del]

section \<open>Mgmt\<close>

record Mgmt =
  controllerIndex :: u16

text \<open>The constructor (lines 48-52).\<close>

definition Mgmt_new :: "u16 \<Rightarrow> world \<Rightarrow> Mgmt \<times> world" where
  "Mgmt_new ci w = (\<lparr>controllerIndex = ci\<rparr>, sync ci w)"

subsection \<open>Name truncation (lines 271-291)\<close>

definition truncateName :: "Mgmt_h \<Rightarrow> string \<Rightarrow> string" where
  "truncateName k name =
     (if length name \<le> kMaxAdvertisingNameLength k then name
      else take (kMaxAdvertisingNameLength k) name)"

definition truncateShortName :: "Mgmt_h \<Rightarrow> string \<Rightarrow> string" where
  "truncateShortName k name =
     (if length name \<le> kMaxAdvertisingShortNameLength k then name
      else take (kMaxAdvertisingShortNameLength k) name)"

subsection \<open>setName (lines 61-91)\<close>

text \<open>
  The local structures of \<^verbatim>\<open>Mgmt.cpp\<close> are all called \<^verbatim>\<open>SRequest\<close>; each extends
  the header and is packed, so its size is the sum of the sizes of its members and its
  image in memory is the members' bytes in declaration order.
\<close>

record SRequest_setName = HciHeader +
  name :: "char list"
  shortName :: "char list"

definition sizeof_SRequest_setName :: nat where
  "sizeof_SRequest_setName = sizeof_HciHeader + 249 + 11"

definition SRequest_setName_payload :: "SRequest_setName \<Rightarrow> u8 list" where
  "SRequest_setName_payload r = map of_char (name r) @ map of_char (shortName r)"

definition SRequest_setName_bytes :: "SRequest_setName \<Rightarrow> u8 list" where
  "SRequest_setName_bytes r = HciHeader_bytes r @ SRequest_setName_payload r"

text \<open>
  Lines 64-82. Each \<^verbatim>\<open>memset\<close> covers its whole array, so the array holds only
  terminators when \<^verbatim>\<open>snprintf\<close> writes into it.
\<close>

definition setName_request :: "Mgmt_h \<Rightarrow> Mgmt \<Rightarrow> string \<Rightarrow> string \<Rightarrow> SRequest_setName" where
  "setName_request k m name_in shortName_in =
     (let name1 = truncateName k name_in;
          shortName1 = truncateShortName k shortName_in
      in \<lparr>code = ESetLocalNameCommand k,
          controllerId = controllerIndex m,
          dataSize = of_nat (sizeof_SRequest_setName - sizeof_HciHeader),
          name = snprintf_s (replicate 249 NUL) 249 (c_str name1),
          shortName = snprintf_s (replicate 11 NUL) 11 (c_str shortName1)\<rparr>)"

definition setName :: "Mgmt_h \<Rightarrow> transport \<Rightarrow> Mgmt \<Rightarrow> string \<Rightarrow> string \<Rightarrow> world \<Rightarrow> bool \<times> world" where
  "setName k tr m name_in shortName_in w =
     (let request = setName_request k m name_in shortName_in;
          (ok, w1) = sendCommand tr (SRequest_setName_bytes request) w
      in if \<not> ok then (False, warn ''  + Failed to set name'' w1)
         else (True, w1))"

subsection \<open>setState and its callers (lines 98-175)\<close>

record SRequest_setState = HciHeader +
  state :: u8

definition sizeof_SRequest_setState :: nat where
  "sizeof_SRequest_setState = sizeof_HciHeader + 1"

definition SRequest_setState_payload :: "SRequest_setState \<Rightarrow> u8 list" where
  "SRequest_setState_payload r = [state r]"

definition SRequest_setState_bytes :: "SRequest_setState \<Rightarrow> u8 list" where
  "SRequest_setState_bytes r = HciHeader_bytes r @ SRequest_setState_payload r"

definition setState_request :: "u16 \<Rightarrow> u16 \<Rightarrow> u8 \<Rightarrow> SRequest_setState" where
  "setState_request commandCode controllerId_in newState =
     \<lparr>code = commandCode,
      controllerId = controllerId_in,
      dataSize = of_nat (sizeof_SRequest_setState - sizeof_HciHeader),
      state = newState\<rparr>"

text \<open>
  The warning of line 113 reads \<^verbatim>\<open>kCommandCodeNames[commandCode]\<close> and prints the
  state as an \<^verbatim>\<open>int\<close>. The table is read only after the transport has refused
  the frame.
\<close>

definition setState_warning :: "string \<Rightarrow> u8 \<Rightarrow> string" where
  "setState_warning codeName newState =
     ''  + Failed to set '' @ codeName @ '' state to: '' @ decimal (unat newState)"

definition setState :: "Mgmt_h \<Rightarrow> transport \<Rightarrow> u16 \<Rightarrow> u16 \<Rightarrow> u8 \<Rightarrow> world \<Rightarrow> (fault + bool) \<times> world" where
  "setState k tr commandCode controllerId_in newState w =
     (let request = setState_request commandCode controllerId_in newState;
          (ok, w1) = sendCommand tr (SRequest_setState_bytes request) w
      in if \<not> ok then
           (if unat commandCode < length (kCommandCodeNames k)
            then (Inr False,
                  warn (setState_warning (kCommandCodeNames k ! unat commandCode) newState) w1)
            else (Inl OutOfBoundsRead, w1))
         else (Inr True, w1))"

definition setPowered :: "Mgmt_h \<Rightarrow> transport \<Rightarrow> Mgmt \<Rightarrow> bool \<Rightarrow> world \<Rightarrow> (fault + bool) \<times> world" where
  "setPowered k tr m newState w =
     setState k tr (ESetPoweredCommand k) (controllerIndex m) (if newState then 1 else 0) w"

definition setBredr :: "Mgmt_h \<Rightarrow> transport \<Rightarrow> Mgmt \<Rightarrow> bool \<Rightarrow> world \<Rightarrow> (fault + bool) \<times> world" where
  "setBredr k tr m newState w =
     setState k tr (ESetBREDRCommand k) (controllerIndex m) (if newState then 1 else 0) w"

definition setSecureConnections :: "Mgmt_h \<Rightarrow> transport \<Rightarrow> Mgmt \<Rightarrow> u8 \<Rightarrow> world \<Rightarrow> (fault + bool) \<times> world" where
  "setSecureConnections k tr m newState w =
     setState k tr (ESetSecureConnectionsCommand k) (controllerIndex m) newState w"

definition setBondable :: "Mgmt_h \<Rightarrow> transport \<Rightarrow> Mgmt \<Rightarrow> bool \<Rightarrow> world \<Rightarrow> (fault + bool) \<times> world" where
  "setBondable k tr m newState w =
     setState k tr (ESetBondableCommand k) (controllerIndex m) (if newState then 1 else 0) w"

definition setConnectable :: "Mgmt_h \<Rightarrow> transport \<Rightarrow> Mgmt \<Rightarrow> bool \<Rightarrow> world \<Rightarrow> (fault + bool) \<times> world" where
  "setConnectable k tr m newState w =
     setState k tr (ESetConnectableCommand k) (controllerIndex m) (if newState then 1 else 0) w"

definition setLE :: "Mgmt_h \<Rightarrow> transport \<Rightarrow> Mgmt \<Rightarrow> bool \<Rightarrow> world \<Rightarrow> (fault + bool) \<times> world" where
  "setLE k tr m newState w =
     setState k tr (ESetLowEnergyCommand k) (controllerIndex m) (if newState then 1 else 0) w"

definition setAdvertising :: "Mgmt_h \<Rightarrow> transport \<Rightarrow> Mgmt \<Rightarrow> u8 \<Rightarrow> world \<Rightarrow> (fault + bool) \<times> world" where
  "setAdvertising k tr m newState w =
     setState k tr (ESetAdvertisingCommand k) (controllerIndex m) newState w"

subsection \<open>addAdvertising (lines 179-263)\<close>

definition ADVERTISING_MAX_DATALEN :: nat where
  "ADVERTISING_MAX_DATALEN = 31"

definition SCAN_RSP_MAX_DATALEN :: nat where
  "SCAN_RSP_MAX_DATALEN = 17"

record SRequest_addAdvertising = HciHeader +
  instance_id :: u8
  flags :: u32
  duration :: u16
  timeout :: u16
  advDataLen :: u8
  scanRspLen :: u8
  data :: "u8 list"
  scanRspData :: "u8 list"

definition sizeof_SRequest_addAdvertising :: nat where
  "sizeof_SRequest_addAdvertising =
     sizeof_HciHeader + 1 + 4 + 2 + 2 + 1 + 1 + ADVERTISING_MAX_DATALEN + SCAN_RSP_MAX_DATALEN"

definition SRequest_addAdvertising_payload :: "SRequest_addAdvertising \<Rightarrow> u8 list" where
  "SRequest_addAdvertising_payload r =
     [instance_id r] @ le32 (flags r) @ le16 (duration r) @ le16 (timeout r)
     @ [advDataLen r] @ [scanRspLen r] @ data r @ scanRspData r"

definition SRequest_addAdvertising_bytes :: "SRequest_addAdvertising \<Rightarrow> u8 list" where
  "SRequest_addAdvertising_bytes r = HciHeader_bytes r @ SRequest_addAdvertising_payload r"

text \<open>\<^verbatim>\<open>SRequest request{}\<close> (line 196): every member starts as zero.\<close>

definition SRequest_addAdvertising_zero :: SRequest_addAdvertising where
  "SRequest_addAdvertising_zero =
     \<lparr>code = 0, controllerId = 0, dataSize = 0,
      instance_id = 0, flags = 0, duration = 0, timeout = 0,
      advDataLen = 0, scanRspLen = 0,
      data = replicate ADVERTISING_MAX_DATALEN 0,
      scanRspData = replicate SCAN_RSP_MAX_DATALEN 0\<rparr>"

definition local_name :: string where
  "local_name = ''SKYWALKER-XXXXX''"

text \<open>Lines 196-254, one update for each assignment, in the order of the source.\<close>

definition addAdvertising_request :: "Mgmt_h \<Rightarrow> Mgmt \<Rightarrow> SRequest_addAdvertising" where
  "addAdvertising_request k m =
     (let request = SRequest_addAdvertising_zero;
          request = request\<lparr>code := EAddAdvertisingCommand k\<rparr>;
          request = request\<lparr>controllerId := controllerIndex m\<rparr>;
          request = request\<lparr>dataSize :=
                      of_nat (sizeof_SRequest_addAdvertising - sizeof_HciHeader)\<rparr>;
          request = request\<lparr>instance_id := 0x01\<rparr>;
          request = request\<lparr>flags := 0\<rparr>;
          request = request\<lparr>duration := 0\<rparr>;
          request = request\<lparr>timeout := 0\<rparr>;
          request = request\<lparr>advDataLen := of_nat ADVERTISING_MAX_DATALEN\<rparr>;
          request = request\<lparr>scanRspLen := of_nat SCAN_RSP_MAX_DATALEN\<rparr>;
          request = request\<lparr>data := (data request)
                      [0 := 0x02, 1 := 0x01, 2 := 0x06,
                       3 := 0x1B, 4 := 0xFF, 5 := 0xA6, 6 := 0x02,
                       7 := 0x00, 8 := 0x00, 9 := 0x00, 10 := 100,
                       11 := 0xB0, 12 := 0xD0, 13 := 0x56, 14 := 0xF2, 15 := 0xB5,
                       16 := 0x12, 17 := 0x00, 18 := 0x00, 19 := 0x00, 20 := 0x00]\<rparr>;
          request = request\<lparr>scanRspData := (scanRspData request)[0 := 0x10]\<rparr>;
          request = request\<lparr>scanRspData := (scanRspData request)[1 := 0x09]\<rparr>;
          request = request\<lparr>scanRspData :=
                      memcpy (scanRspData request) 2 (c_str local_name)
                        (SCAN_RSP_MAX_DATALEN - 2)\<rparr>
      in request)"

definition addAdvertising :: "Mgmt_h \<Rightarrow> transport \<Rightarrow> Mgmt \<Rightarrow> world \<Rightarrow> bool \<times> world" where
  "addAdvertising k tr m w =
     (let request = addAdvertising_request k m;
          (ok, w1) = sendCommand tr (SRequest_addAdvertising_bytes request) w
      in if \<not> ok then (False, warn ''  + Failed to start advertising with UUID'' w1)
         else (True, w1))"

subsection \<open>The table of names and the codes in use\<close>

text \<open>
  The table \<^verbatim>\<open>kCommandCodeNames\<close> has an entry for each operation code that the
  callers of \<open>setState\<close> in \<^verbatim>\<open>Mgmt.cpp\<close> pass to it.
\<close>

definition names_declared :: "Mgmt_h \<Rightarrow> bool" where
  "names_declared k =
     list_all (\<lambda>c. unat c < length (kCommandCodeNames k))
       [ESetPoweredCommand k, ESetBREDRCommand k, ESetSecureConnectionsCommand k,
        ESetBondableCommand k, ESetConnectableCommand k, ESetLowEnergyCommand k,
        ESetAdvertisingCommand k]"

subsection \<open>An instance of the parameters\<close>

text \<open>
  Concrete values for the closed examples below: the operation codes of the Linux
  Bluetooth management interface, limits one below the sizes of the two name arrays,
  and a table with an entry for every code up to \<open>0x43\<close>.
\<close>

definition example_Mgmt_h :: Mgmt_h where
  "example_Mgmt_h =
     \<lparr>ESetPoweredCommand = 0x0005, ESetBREDRCommand = 0x002A,
      ESetSecureConnectionsCommand = 0x002D, ESetBondableCommand = 0x0009,
      ESetConnectableCommand = 0x0007, ESetLowEnergyCommand = 0x000D,
      ESetAdvertisingCommand = 0x0029, ESetLocalNameCommand = 0x000F,
      EAddAdvertisingCommand = 0x003E,
      kMaxAdvertisingNameLength = 248, kMaxAdvertisingShortNameLength = 10,
      kCommandCodeNames = replicate 0x44 ''Command''\<rparr>"

definition world0 :: world where
  "world0 = \<lparr>synced = [], sent = [], warnings = []\<rparr>"

text \<open>A transport that refuses every frame.\<close>

definition refusing :: transport where
  "refusing frames frame = False"

section \<open>Name truncation\<close>

text \<open>
  Claim C3. For every input string, \<open>truncateName\<close> returns a prefix of the input of
  length min(len(input), kMaxAdvertisingNameLength), and \<open>truncateShortName\<close> does the
  same with kMaxAdvertisingShortNameLength: an input at or under the limit comes back
  unchanged, a longer one is cut to exactly the limit. Both are total functions.
\<close>

theorem truncate_prefix_min:
  "prefix (truncateName k s) s
   \<and> length (truncateName k s) = min (length s) (kMaxAdvertisingNameLength k)
   \<and> (length s \<le> kMaxAdvertisingNameLength k \<longrightarrow> truncateName k s = s)
   \<and> (kMaxAdvertisingNameLength k < length s \<longrightarrow>
        length (truncateName k s) = kMaxAdvertisingNameLength k)
   \<and> prefix (truncateShortName k s) s
   \<and> length (truncateShortName k s) = min (length s) (kMaxAdvertisingShortNameLength k)
   \<and> (length s \<le> kMaxAdvertisingShortNameLength k \<longrightarrow> truncateShortName k s = s)
   \<and> (kMaxAdvertisingShortNameLength k < length s \<longrightarrow>
        length (truncateShortName k s) = kMaxAdvertisingShortNameLength k)"
  by (simp add: truncateName_def truncateShortName_def take_is_prefix)

theorem truncate_prefix_min_witness:
  "truncateName example_Mgmt_h ''ggk'' = ''ggk''
   \<and> truncateShortName example_Mgmt_h ''ggk'' = ''ggk''
   \<and> length (truncateName example_Mgmt_h (replicate 300 (CHR ''a''))) = 248
   \<and> length (truncateShortName example_Mgmt_h (replicate 300 (CHR ''a''))) = 10
   \<and> prefix (truncateName example_Mgmt_h (replicate 300 (CHR ''a''))) (replicate 300 (CHR ''a''))
   \<and> prefix (truncateShortName example_Mgmt_h (replicate 300 (CHR ''a'')))
        (replicate 300 (CHR ''a''))"
  using truncate_prefix_min [of example_Mgmt_h "''ggk''"]
    truncate_prefix_min [of example_Mgmt_h "replicate 300 (CHR ''a'')"]
  by (simp add: example_Mgmt_h_def)

section \<open>The advertising request\<close>

text \<open>The two arrays after the assignments of lines 213-254, evaluated once.\<close>

lemma adv_data_updates:
  "(replicate 31 (0::u8))
     [0 := 0x02, Suc 0 := 0x01, 2 := 0x06,
      3 := 0x1B, 4 := 0xFF, 5 := 0xA6, 6 := 0x02,
      7 := 0x00, 8 := 0x00, 9 := 0x00, 10 := 100,
      11 := 0xB0, 12 := 0xD0, 13 := 0x56, 14 := 0xF2, 15 := 0xB5,
      16 := 0x12, 17 := 0x00, 18 := 0x00, 19 := 0x00, 20 := 0x00] =
   [0x02, 0x01, 0x06, 0x1B, 0xFF, 0xA6, 0x02, 0, 0, 0, 100,
    0xB0, 0xD0, 0x56, 0xF2, 0xB5, 0x12, 0, 0, 0, 0,
    0, 0, 0, 0, 0, 0, 0, 0, 0, 0]"
  by code_simp

lemma scan_rsp_updates:
  "memcpy ((replicate 17 (0::u8))[0 := 0x10, Suc 0 := 0x09]) 2 (c_str local_name) 15 =
   [0x10, 0x09, 83, 75, 89, 87, 65, 76, 75, 69, 82, 45, 88, 88, 88, 88, 88]"
  by code_simp

lemma addAdvertising_request_eq:
  "addAdvertising_request k m =
     \<lparr>code = EAddAdvertisingCommand k, controllerId = controllerIndex m, dataSize = 59,
      instance_id = 1, flags = 0, duration = 0, timeout = 0,
      advDataLen = 31, scanRspLen = 17,
      data = [0x02, 0x01, 0x06, 0x1B, 0xFF, 0xA6, 0x02, 0, 0, 0, 100,
              0xB0, 0xD0, 0x56, 0xF2, 0xB5, 0x12, 0, 0, 0, 0,
              0, 0, 0, 0, 0, 0, 0, 0, 0, 0],
      scanRspData = [0x10, 0x09, 83, 75, 89, 87, 65, 76, 75, 69, 82, 45, 88, 88, 88, 88, 88]\<rparr>"
  unfolding addAdvertising_request_def SRequest_addAdvertising_zero_def Let_def
    sizeof_SRequest_addAdvertising_def sizeof_HciHeader_def
    ADVERTISING_MAX_DATALEN_def SCAN_RSP_MAX_DATALEN_def
  by (simp add: adv_data_updates scan_rsp_updates)

lemma sent_addAdvertising:
  "sent (snd (addAdvertising k tr m w)) =
     sent w @ [SRequest_addAdvertising_bytes (addAdvertising_request k m)]"
  by (simp add: addAdvertising_def sendCommand_def warn_def Let_def)

text \<open>
  Claim C2, as the specification states it: the frame of \<open>addAdvertising\<close> has
  \<open>advDataLen\<close> equal to 21 and \<open>scanRspLen\<close> equal to 17. Line 208 stores
  \<^verbatim>\<open>ADVERTISING_MAX_DATALEN\<close>, so the first half is false for the frame of controller 0.
\<close>

theorem addAdvertising_advDataLen_is_not_21:
  "\<not> (advDataLen (addAdvertising_request example_Mgmt_h \<lparr>controllerIndex = 0\<rparr>) = 21
      \<and> scanRspLen (addAdvertising_request example_Mgmt_h \<lparr>controllerIndex = 0\<rparr>) = 17)"
  by (simp add: addAdvertising_request_eq)

text \<open>
  Claim C2, amended. The frame of \<open>addAdvertising\<close> has \<open>advDataLen\<close> equal to 31 and
  \<open>scanRspLen\<close> equal to 17: each length field equals the size of its array, and also
  the number of bytes that the entries in the array declare (a 3-byte flags entry and a
  manufacturer entry of one length byte plus \<open>0x1B\<close> bytes in the advertising data, whose
  last ten bytes are the zeros left after the 21 bytes written one by one; an entry of one
  length byte plus \<open>0x10\<close> bytes in the scan response).
\<close>

theorem addAdvertising_length_fields:
  "advDataLen (addAdvertising_request k m) = 31
   \<and> scanRspLen (addAdvertising_request k m) = 17
   \<and> unat (advDataLen (addAdvertising_request k m)) = length (data (addAdvertising_request k m))
   \<and> unat (scanRspLen (addAdvertising_request k m)) =
       length (scanRspData (addAdvertising_request k m))
   \<and> (1 + unat (data (addAdvertising_request k m) ! 0))
       + (1 + unat (data (addAdvertising_request k m) ! 3)) = 31
   \<and> 1 + unat (scanRspData (addAdvertising_request k m) ! 0) = 17
   \<and> drop 21 (data (addAdvertising_request k m)) = [0, 0, 0, 0, 0, 0, 0, 0, 0, 0]"
  by (simp add: addAdvertising_request_eq)

text \<open>
  Claim C7. \<open>addAdvertising\<close> builds a frame with instance 1 and flags, duration and
  timeout 0. Its advertising data starts with the flags entry (length \<open>0x02\<close>, type
  \<open>0x01\<close>, value \<open>0x06\<close>), followed by the manufacturer entry (type \<open>0xFF\<close>) with the
  vendor identifier \<open>A6 02\<close>, model, board version and status 0, battery 100 and the
  ten bytes of the serial number. Its scan response is one complete-local-name entry
  (length \<open>0x10\<close>, type \<open>0x09\<close>) holding the 15 characters of the device name. This
  request is the frame that \<open>addAdvertising\<close> hands to the transport.
\<close>

theorem addAdvertising_contents:
  "instance_id (addAdvertising_request k m) = 1
   \<and> flags (addAdvertising_request k m) = 0
   \<and> duration (addAdvertising_request k m) = 0
   \<and> timeout (addAdvertising_request k m) = 0
   \<and> take 3 (data (addAdvertising_request k m)) = [0x02, 0x01, 0x06]
   \<and> take 18 (drop 3 (data (addAdvertising_request k m))) =
        [0x1B, 0xFF, 0xA6, 0x02, 0x00, 0x00, 0x00, 100,
         0xB0, 0xD0, 0x56, 0xF2, 0xB5, 0x12, 0x00, 0x00, 0x00, 0x00]
   \<and> scanRspData (addAdvertising_request k m) = [0x10, 0x09] @ map of_char ''SKYWALKER-XXXXX''
   \<and> length ''SKYWALKER-XXXXX'' = 15
   \<and> sent (snd (addAdvertising k tr m w)) =
        sent w @ [SRequest_addAdvertising_bytes (addAdvertising_request k m)]"
  by (simp add: addAdvertising_request_eq sent_addAdvertising)

section \<open>Layout of the frames\<close>

lemma le16_numerals: "le16 1 = [1, 0]" "le16 260 = [4, 1]" "le16 59 = [59, 0]"
  by (simp_all add: le16_def)

lemma length_le16: "length (le16 x) = 2"
  by (simp add: le16_def)

section \<open>The name request\<close>

lemma strchars_c_str: "strchars (c_str s) = strchars s"
  by (induction s) (simp_all add: strchars_def c_str_def)

lemma strchars_no_NUL: "NUL \<notin> set s \<Longrightarrow> strchars s = s"
  by (auto simp: strchars_def)

lemma snprintf_s_zeroed:
  assumes "0 < n"
  shows "snprintf_s (replicate n NUL) n src =
           take (n - 1) (strchars src) @ replicate (n - length (take (n - 1) (strchars src))) NUL"
proof -
  let ?out = "take (n - 1) (strchars src)"
  have le: "length ?out \<le> n - 1" by simp
  with assms have "n - length ?out = Suc (n - (length ?out + 1))" by linarith
  then have "replicate (n - length ?out) NUL = [NUL] @ replicate (n - (length ?out + 1)) NUL"
    by simp
  with assms show ?thesis
    by (simp add: snprintf_s_def Let_def)
qed

lemma name_setName_request:
  "name (setName_request k m a b) =
     take 248 (strchars (truncateName k a))
     @ replicate (249 - length (take 248 (strchars (truncateName k a)))) NUL"
  using snprintf_s_zeroed [of 249 "c_str (truncateName k a)"]
  by (simp add: setName_request_def Let_def strchars_c_str)

lemma shortName_setName_request:
  "shortName (setName_request k m a b) =
     take 10 (strchars (truncateShortName k b))
     @ replicate (11 - length (take 10 (strchars (truncateShortName k b)))) NUL"
  using snprintf_s_zeroed [of 11 "c_str (truncateShortName k b)"]
  by (simp add: setName_request_def Let_def strchars_c_str)

lemma length_name_setName_request: "length (name (setName_request k m a b)) = 249"
  by (simp add: name_setName_request)

lemma length_shortName_setName_request: "length (shortName (setName_request k m a b)) = 11"
  by (simp add: shortName_setName_request)

lemma header_setName_request:
  "code (setName_request k m a b) = ESetLocalNameCommand k"
  "controllerId (setName_request k m a b) = controllerIndex m"
  "dataSize (setName_request k m a b) = 260"
  by (simp_all add: setName_request_def Let_def sizeof_SRequest_setName_def)

lemma header_setState_request:
  "code (setState_request cc ci ns) = cc"
  "controllerId (setState_request cc ci ns) = ci"
  "dataSize (setState_request cc ci ns) = 1"
  "state (setState_request cc ci ns) = ns"
  by (simp_all add: setState_request_def sizeof_SRequest_setState_def)

lemma SRequest_setState_bytes_eq:
  "SRequest_setState_bytes (setState_request cc ci ns) = le16 cc @ le16 ci @ [1, 0] @ [ns]"
  by (simp add: SRequest_setState_bytes_def SRequest_setState_payload_def HciHeader_bytes_def
      header_setState_request le16_numerals)

lemma sent_setName:
  "sent (snd (setName k tr m a b w)) =
     sent w @ [SRequest_setName_bytes (setName_request k m a b)]"
  by (simp add: setName_def sendCommand_def warn_def Let_def)

lemma sent_setState:
  "sent (snd (setState k tr cc ci ns w)) =
     sent w @ [SRequest_setState_bytes (setState_request cc ci ns)]"
  by (simp add: setState_def sendCommand_def warn_def Let_def)

lemma setName_run:
  "setName k tr m a b w =
     (tr (sent w) (SRequest_setName_bytes (setName_request k m a b)),
      \<lparr>synced = synced w,
       sent = sent w @ [SRequest_setName_bytes (setName_request k m a b)],
       warnings = warnings w @
         (if tr (sent w) (SRequest_setName_bytes (setName_request k m a b)) then []
          else [''  + Failed to set name''])\<rparr>)"
  by (simp add: setName_def sendCommand_def warn_def Let_def)

lemma addAdvertising_run:
  "addAdvertising k tr m w =
     (tr (sent w) (SRequest_addAdvertising_bytes (addAdvertising_request k m)),
      \<lparr>synced = synced w,
       sent = sent w @ [SRequest_addAdvertising_bytes (addAdvertising_request k m)],
       warnings = warnings w @
         (if tr (sent w) (SRequest_addAdvertising_bytes (addAdvertising_request k m)) then []
          else [''  + Failed to start advertising with UUID''])\<rparr>)"
  by (simp add: addAdvertising_def sendCommand_def warn_def Let_def)

lemma setState_run:
  assumes "unat cc < length (kCommandCodeNames k)"
  shows "setState k tr cc ci ns w =
     (Inr (tr (sent w) (SRequest_setState_bytes (setState_request cc ci ns))),
      \<lparr>synced = synced w,
       sent = sent w @ [SRequest_setState_bytes (setState_request cc ci ns)],
       warnings = warnings w @
         (if tr (sent w) (SRequest_setState_bytes (setState_request cc ci ns)) then []
          else [''  + Failed to set '' @ kCommandCodeNames k ! unat cc @ '' state to: ''
                @ decimal (unat ns)])\<rparr>)"
  using assms
  by (simp add: setState_def sendCommand_def warn_def Let_def setState_warning_def)

text \<open>
  Claim C5. Whatever the two strings and their lengths, the frame that \<open>setName\<close>
  encodes has a payload length field of exactly 260, the 249 bytes of the name array
  plus the 11 bytes of the short-name array: the member \<open>dataSize\<close> is 260, the payload
  is 260 bytes long, and bytes 4 and 5 of the frame handed to the transport are
  \<open>04 01\<close>, which is 260 in little-endian order.
\<close>

theorem setName_payloadLength_260:
  "dataSize (setName_request k m a b) = 260
   \<and> length (SRequest_setName_payload (setName_request k m a b)) = 249 + 11
   \<and> take 2 (drop 4 (SRequest_setName_bytes (setName_request k m a b))) = [0x04, 0x01]
   \<and> sent (snd (setName k tr m a b w)) =
        sent w @ [SRequest_setName_bytes (setName_request k m a b)]"
  by (simp add: header_setName_request SRequest_setName_payload_def SRequest_setName_bytes_def
      HciHeader_bytes_def length_le16 length_name_setName_request
      length_shortName_setName_request le16_numerals sent_setName)

lemma nth_zero_padded:
  assumes "length out \<le> i" and "i < n"
  shows "(out @ replicate (n - length out) NUL) ! i = NUL"
  using assms by (simp add: nth_append)

lemma last_zero_padded:
  assumes "length out < n"
  shows "last (out @ replicate (n - length out) NUL) = NUL"
  using assms by simp

text \<open>
  Claim C6. In the payload built by \<open>setName\<close>, both arrays are terminated and padded
  with zeros: the 249-byte name array is the copied characters (those of the truncated
  name before any terminator of its own, at most 248) followed by zeros only, up to its
  end, and its last byte is zero; the same holds of the 11-byte short-name array with at
  most 10 characters. For a string without a zero byte and limits within the arrays,
  the copied characters are the truncated string itself.
\<close>

theorem setName_buffers_zero_padded:
  "name (setName_request k m a b) =
     take 248 (strchars (truncateName k a))
     @ replicate (249 - length (take 248 (strchars (truncateName k a)))) NUL
   \<and> length (name (setName_request k m a b)) = 249
   \<and> last (name (setName_request k m a b)) = NUL
   \<and> (\<forall>i. length (take 248 (strchars (truncateName k a))) \<le> i \<and> i < 249
          \<longrightarrow> name (setName_request k m a b) ! i = NUL)
   \<and> (NUL \<notin> set a \<and> kMaxAdvertisingNameLength k \<le> 248
          \<longrightarrow> name (setName_request k m a b) =
              truncateName k a @ replicate (249 - length (truncateName k a)) NUL)
   \<and> shortName (setName_request k m a b) =
     take 10 (strchars (truncateShortName k b))
     @ replicate (11 - length (take 10 (strchars (truncateShortName k b)))) NUL
   \<and> length (shortName (setName_request k m a b)) = 11
   \<and> last (shortName (setName_request k m a b)) = NUL
   \<and> (\<forall>i. length (take 10 (strchars (truncateShortName k b))) \<le> i \<and> i < 11
          \<longrightarrow> shortName (setName_request k m a b) ! i = NUL)
   \<and> (NUL \<notin> set b \<and> kMaxAdvertisingShortNameLength k \<le> 10
          \<longrightarrow> shortName (setName_request k m a b) =
              truncateShortName k b @ replicate (11 - length (truncateShortName k b)) NUL)"
proof -
  let ?n = "take 248 (strchars (truncateName k a))"
  let ?s = "take 10 (strchars (truncateShortName k b))"
  have n: "name (setName_request k m a b) = ?n @ replicate (249 - length ?n) NUL"
    by (rule name_setName_request)
  have s: "shortName (setName_request k m a b) = ?s @ replicate (11 - length ?s) NUL"
    by (rule shortName_setName_request)
  have ln: "length ?n < 249" and ls: "length ?s < 11"
    by simp_all
  have n_last: "last (name (setName_request k m a b)) = NUL"
    unfolding n using ln by (rule last_zero_padded)
  have s_last: "last (shortName (setName_request k m a b)) = NUL"
    unfolding s using ls by (rule last_zero_padded)
  have n_tail: "\<forall>i. length ?n \<le> i \<and> i < 249 \<longrightarrow> name (setName_request k m a b) ! i = NUL"
    unfolding n by (blast intro: nth_zero_padded)
  have s_tail: "\<forall>i. length ?s \<le> i \<and> i < 11 \<longrightarrow> shortName (setName_request k m a b) ! i = NUL"
    unfolding s by (blast intro: nth_zero_padded)
  have n_plain: "NUL \<notin> set a \<and> kMaxAdvertisingNameLength k \<le> 248
      \<longrightarrow> name (setName_request k m a b) =
          truncateName k a @ replicate (249 - length (truncateName k a)) NUL"
  proof
    assume h: "NUL \<notin> set a \<and> kMaxAdvertisingNameLength k \<le> 248"
    then have "NUL \<notin> set (truncateName k a)"
      by (auto simp: truncateName_def dest: in_set_takeD)
    then have "strchars (truncateName k a) = truncateName k a"
      by (rule strchars_no_NUL)
    moreover from h have "length (truncateName k a) \<le> 248"
      by (simp add: truncateName_def)
    ultimately show "name (setName_request k m a b) =
        truncateName k a @ replicate (249 - length (truncateName k a)) NUL"
      unfolding n by simp
  qed
  have s_plain: "NUL \<notin> set b \<and> kMaxAdvertisingShortNameLength k \<le> 10
      \<longrightarrow> shortName (setName_request k m a b) =
          truncateShortName k b @ replicate (11 - length (truncateShortName k b)) NUL"
  proof
    assume h: "NUL \<notin> set b \<and> kMaxAdvertisingShortNameLength k \<le> 10"
    then have "NUL \<notin> set (truncateShortName k b)"
      by (auto simp: truncateShortName_def dest: in_set_takeD)
    then have "strchars (truncateShortName k b) = truncateShortName k b"
      by (rule strchars_no_NUL)
    moreover from h have "length (truncateShortName k b) \<le> 10"
      by (simp add: truncateShortName_def)
    ultimately show "shortName (setName_request k m a b) =
        truncateShortName k b @ replicate (11 - length (truncateShortName k b)) NUL"
      unfolding s by simp
  qed
  from n s n_last s_last n_tail s_tail n_plain s_plain
    length_name_setName_request [of k m a b] length_shortName_setName_request [of k m a b]
  show ?thesis by blast
qed

theorem setName_buffers_zero_padded_witness:
  "name (setName_request example_Mgmt_h \<lparr>controllerIndex = 0\<rparr> ''Gobbledegook'' ''Gobbledegook'')
     = ''Gobbledegook'' @ replicate 237 NUL
   \<and> name (setName_request example_Mgmt_h \<lparr>controllerIndex = 0\<rparr> ''Gobbledegook'' ''Gobbledegook'')
       ! 100 = NUL
   \<and> shortName (setName_request example_Mgmt_h \<lparr>controllerIndex = 0\<rparr> ''Gobbledegook'' ''Gobbledegook'')
     = ''Gobbledego'' @ [NUL]
   \<and> shortName (setName_request example_Mgmt_h \<lparr>controllerIndex = 0\<rparr> ''Gobbledegook'' ''ggk'')
     = ''ggk'' @ replicate 8 NUL
   \<and> shortName (setName_request example_Mgmt_h \<lparr>controllerIndex = 0\<rparr> ''Gobbledegook'' ''ggk'')
       ! 5 = NUL"
  using setName_buffers_zero_padded [of example_Mgmt_h "\<lparr>controllerIndex = 0\<rparr>" "''Gobbledegook''" "''Gobbledegook''"]
    setName_buffers_zero_padded [of example_Mgmt_h "\<lparr>controllerIndex = 0\<rparr>" "''Gobbledegook''" "''ggk''"]
  by (simp add: example_Mgmt_h_def truncateName_def truncateShortName_def strchars_def NUL_def)

section \<open>The state requests\<close>

lemma sent_setPowered:
  "sent (snd (setPowered k tr m p w)) =
     sent w @ [le16 (ESetPoweredCommand k) @ le16 (controllerIndex m) @ [1, 0]
               @ [if p then 1 else 0]]"
  by (simp only: setPowered_def sent_setState SRequest_setState_bytes_eq)

lemma sent_setBredr:
  "sent (snd (setBredr k tr m p w)) =
     sent w @ [le16 (ESetBREDRCommand k) @ le16 (controllerIndex m) @ [1, 0]
               @ [if p then 1 else 0]]"
  by (simp only: setBredr_def sent_setState SRequest_setState_bytes_eq)

lemma sent_setBondable:
  "sent (snd (setBondable k tr m p w)) =
     sent w @ [le16 (ESetBondableCommand k) @ le16 (controllerIndex m) @ [1, 0]
               @ [if p then 1 else 0]]"
  by (simp only: setBondable_def sent_setState SRequest_setState_bytes_eq)

lemma sent_setConnectable:
  "sent (snd (setConnectable k tr m p w)) =
     sent w @ [le16 (ESetConnectableCommand k) @ le16 (controllerIndex m) @ [1, 0]
               @ [if p then 1 else 0]]"
  by (simp only: setConnectable_def sent_setState SRequest_setState_bytes_eq)

lemma sent_setLE:
  "sent (snd (setLE k tr m p w)) =
     sent w @ [le16 (ESetLowEnergyCommand k) @ le16 (controllerIndex m) @ [1, 0]
               @ [if p then 1 else 0]]"
  by (simp only: setLE_def sent_setState SRequest_setState_bytes_eq)

lemma sent_setSecureConnections:
  "sent (snd (setSecureConnections k tr m ns w)) =
     sent w @ [le16 (ESetSecureConnectionsCommand k) @ le16 (controllerIndex m) @ [1, 0] @ [ns]]"
  by (simp only: setSecureConnections_def sent_setState SRequest_setState_bytes_eq)

lemma sent_setAdvertising:
  "sent (snd (setAdvertising k tr m ns w)) =
     sent w @ [le16 (ESetAdvertisingCommand k) @ le16 (controllerIndex m) @ [1, 0] @ [ns]]"
  by (simp only: setAdvertising_def sent_setState SRequest_setState_bytes_eq)

text \<open>
  Claim C4. Each of the boolean setters \<open>setPowered\<close>, \<open>setBredr\<close>, \<open>setBondable\<close>,
  \<open>setConnectable\<close> and \<open>setLE\<close> hands the transport one frame under its own command
  code whose single payload byte is exactly 1 when called with true and exactly 0 when
  called with false.
\<close>

theorem boolean_setters_state_byte:
  "sent (snd (setPowered k tr m True w)) =
     sent w @ [le16 (ESetPoweredCommand k) @ le16 (controllerIndex m) @ [1, 0] @ [1]]
   \<and> sent (snd (setPowered k tr m False w)) =
     sent w @ [le16 (ESetPoweredCommand k) @ le16 (controllerIndex m) @ [1, 0] @ [0]]
   \<and> sent (snd (setBredr k tr m True w)) =
     sent w @ [le16 (ESetBREDRCommand k) @ le16 (controllerIndex m) @ [1, 0] @ [1]]
   \<and> sent (snd (setBredr k tr m False w)) =
     sent w @ [le16 (ESetBREDRCommand k) @ le16 (controllerIndex m) @ [1, 0] @ [0]]
   \<and> sent (snd (setBondable k tr m True w)) =
     sent w @ [le16 (ESetBondableCommand k) @ le16 (controllerIndex m) @ [1, 0] @ [1]]
   \<and> sent (snd (setBondable k tr m False w)) =
     sent w @ [le16 (ESetBondableCommand k) @ le16 (controllerIndex m) @ [1, 0] @ [0]]
   \<and> sent (snd (setConnectable k tr m True w)) =
     sent w @ [le16 (ESetConnectableCommand k) @ le16 (controllerIndex m) @ [1, 0] @ [1]]
   \<and> sent (snd (setConnectable k tr m False w)) =
     sent w @ [le16 (ESetConnectableCommand k) @ le16 (controllerIndex m) @ [1, 0] @ [0]]
   \<and> sent (snd (setLE k tr m True w)) =
     sent w @ [le16 (ESetLowEnergyCommand k) @ le16 (controllerIndex m) @ [1, 0] @ [1]]
   \<and> sent (snd (setLE k tr m False w)) =
     sent w @ [le16 (ESetLowEnergyCommand k) @ le16 (controllerIndex m) @ [1, 0] @ [0]]"
  by (simp add: sent_setPowered sent_setBredr sent_setBondable sent_setConnectable sent_setLE)

text \<open>
  Claim C9. For every 8-bit value, also one outside 0-2, \<open>setState\<close>,
  \<open>setAdvertising\<close> and \<open>setSecureConnections\<close> check no range: the frame they hand
  to the transport carries the given byte unchanged as its state payload.
\<close>

theorem state_byte_forwarded_unchecked:
  "state (setState_request commandCode ci newState) = newState
   \<and> sent (snd (setState k tr commandCode ci newState w)) =
     sent w @ [le16 commandCode @ le16 ci @ [1, 0] @ [newState]]
   \<and> sent (snd (setAdvertising k tr m newState w)) =
     sent w @ [le16 (ESetAdvertisingCommand k) @ le16 (controllerIndex m) @ [1, 0] @ [newState]]
   \<and> sent (snd (setSecureConnections k tr m newState w)) =
     sent w @ [le16 (ESetSecureConnectionsCommand k) @ le16 (controllerIndex m) @ [1, 0]
               @ [newState]]"
  by (simp add: header_setState_request sent_setState SRequest_setState_bytes_eq
      sent_setAdvertising sent_setSecureConnections)

lemma le16_inject: "le16 x = le16 y \<longleftrightarrow> x = y"
proof
  assume "le16 x = le16 y"
  then have lo: "(ucast x :: u8) = ucast y"
    and hi: "(ucast (drop_bit 8 x) :: u8) = ucast (drop_bit 8 y)"
    by (simp_all add: le16_def)
  show "x = y"
  proof (rule bit_word_eqI)
    fix n
    assume n: "n < LENGTH(16)"
    show "bit x n = bit y n"
    proof (cases "n < 8")
      case True
      from lo have "bit (ucast x :: u8) n = bit (ucast y :: u8) n" by simp
      with True show ?thesis by (simp add: bit_ucast_iff)
    next
      case False
      from hi have "bit (ucast (drop_bit 8 x) :: u8) (n - 8)
          = bit (ucast (drop_bit 8 y) :: u8) (n - 8)" by simp
      moreover from False n have "n - 8 < 8" by simp
      ultimately show ?thesis using False by (simp add: bit_ucast_iff bit_drop_bit_eq)
    qed
  qed
qed simp

lemma SRequest_setName_bytes_eq:
  "SRequest_setName_bytes (setName_request k m a b) =
     le16 (ESetLocalNameCommand k) @ le16 (controllerIndex m) @ [4, 1]
     @ SRequest_setName_payload (setName_request k m a b)"
  by (simp add: SRequest_setName_bytes_def HciHeader_bytes_def header_setName_request
      le16_numerals)

lemma SRequest_addAdvertising_bytes_eq:
  "SRequest_addAdvertising_bytes (addAdvertising_request k m) =
     le16 (EAddAdvertisingCommand k) @ le16 (controllerIndex m) @ [59, 0]
     @ SRequest_addAdvertising_payload (addAdvertising_request k m)"
  by (simp add: SRequest_addAdvertising_bytes_def HciHeader_bytes_def
      addAdvertising_request_eq le16_numerals)

lemma length_SRequest_setName_payload:
  "length (SRequest_setName_payload (setName_request k m a b)) = 260"
  by (simp add: SRequest_setName_payload_def length_name_setName_request
      length_shortName_setName_request)

lemma length_SRequest_addAdvertising_payload:
  "length (SRequest_addAdvertising_payload (addAdvertising_request k m)) = 59"
  by (simp add: SRequest_addAdvertising_payload_def addAdvertising_request_eq le16_def le32_def)

lemma framed:
  "length (le16 c @ le16 i @ lo # hi # payload) = 6 + length payload"
  "(le16 c @ le16 i @ lo # hi # payload) ! 4 = lo"
  "(le16 c @ le16 i @ lo # hi # payload) ! 5 = hi"
  "drop 6 (le16 c @ le16 i @ lo # hi # payload) = payload"
  "take 2 (drop 2 (le16 c @ le16 i @ lo # hi # payload)) = le16 i"
  "take 2 (le16 c @ le16 i @ lo # hi # payload) = le16 c"
  by (simp_all add: le16_def)

lemma sent_setPowered_request:
  "sent (snd (setPowered k tr m p w)) =
     sent w @ [SRequest_setState_bytes
                 (setState_request (ESetPoweredCommand k) (controllerIndex m) (if p then 1 else 0))]"
  by (simp only: setPowered_def sent_setState)

lemma sent_setBredr_request:
  "sent (snd (setBredr k tr m p w)) =
     sent w @ [SRequest_setState_bytes
                 (setState_request (ESetBREDRCommand k) (controllerIndex m) (if p then 1 else 0))]"
  by (simp only: setBredr_def sent_setState)

lemma sent_setBondable_request:
  "sent (snd (setBondable k tr m p w)) =
     sent w @ [SRequest_setState_bytes
                 (setState_request (ESetBondableCommand k) (controllerIndex m) (if p then 1 else 0))]"
  by (simp only: setBondable_def sent_setState)

lemma sent_setConnectable_request:
  "sent (snd (setConnectable k tr m p w)) =
     sent w @ [SRequest_setState_bytes
                 (setState_request (ESetConnectableCommand k) (controllerIndex m) (if p then 1 else 0))]"
  by (simp only: setConnectable_def sent_setState)

lemma sent_setLE_request:
  "sent (snd (setLE k tr m p w)) =
     sent w @ [SRequest_setState_bytes
                 (setState_request (ESetLowEnergyCommand k) (controllerIndex m) (if p then 1 else 0))]"
  by (simp only: setLE_def sent_setState)

lemma sent_setSecureConnections_request:
  "sent (snd (setSecureConnections k tr m ns w)) =
     sent w @ [SRequest_setState_bytes
                 (setState_request (ESetSecureConnectionsCommand k) (controllerIndex m) ns)]"
  by (simp only: setSecureConnections_def sent_setState)

lemma sent_setAdvertising_request:
  "sent (snd (setAdvertising k tr m ns w)) =
     sent w @ [SRequest_setState_bytes
                 (setState_request (ESetAdvertisingCommand k) (controllerIndex m) ns)]"
  by (simp only: setAdvertising_def sent_setState)

lemma setName_frame_layout:
  "unat (dataSize (setName_request k m a b)) =
     length (SRequest_setName_payload (setName_request k m a b))
   \<and> SRequest_setName_bytes (setName_request k m a b) =
       le16 (code (setName_request k m a b)) @ le16 (controllerId (setName_request k m a b))
       @ le16 (dataSize (setName_request k m a b))
       @ SRequest_setName_payload (setName_request k m a b)
   \<and> length (SRequest_setName_bytes (setName_request k m a b)) =
       2 + 2 + 2 + length (SRequest_setName_payload (setName_request k m a b))
   \<and> unat (SRequest_setName_bytes (setName_request k m a b) ! 4)
       + 256 * unat (SRequest_setName_bytes (setName_request k m a b) ! 5) =
       length (drop 6 (SRequest_setName_bytes (setName_request k m a b)))"
  by (simp add: SRequest_setName_bytes_eq framed length_le16 length_SRequest_setName_payload
      header_setName_request le16_numerals)

lemma setState_frame_layout:
  "unat (dataSize (setState_request cc ci ns)) =
     length (SRequest_setState_payload (setState_request cc ci ns))
   \<and> SRequest_setState_bytes (setState_request cc ci ns) =
       le16 (code (setState_request cc ci ns)) @ le16 (controllerId (setState_request cc ci ns))
       @ le16 (dataSize (setState_request cc ci ns))
       @ SRequest_setState_payload (setState_request cc ci ns)
   \<and> length (SRequest_setState_bytes (setState_request cc ci ns)) =
       2 + 2 + 2 + length (SRequest_setState_payload (setState_request cc ci ns))
   \<and> unat (SRequest_setState_bytes (setState_request cc ci ns) ! 4)
       + 256 * unat (SRequest_setState_bytes (setState_request cc ci ns) ! 5) =
       length (drop 6 (SRequest_setState_bytes (setState_request cc ci ns)))"
  by (simp add: SRequest_setState_bytes_eq framed length_le16 SRequest_setState_payload_def
      header_setState_request le16_numerals)

lemma addAdvertising_frame_layout:
  "unat (dataSize (addAdvertising_request k m)) =
     length (SRequest_addAdvertising_payload (addAdvertising_request k m))
   \<and> SRequest_addAdvertising_bytes (addAdvertising_request k m) =
       le16 (code (addAdvertising_request k m)) @ le16 (controllerId (addAdvertising_request k m))
       @ le16 (dataSize (addAdvertising_request k m))
       @ SRequest_addAdvertising_payload (addAdvertising_request k m)
   \<and> length (SRequest_addAdvertising_bytes (addAdvertising_request k m)) =
       2 + 2 + 2 + length (SRequest_addAdvertising_payload (addAdvertising_request k m))
   \<and> unat (SRequest_addAdvertising_bytes (addAdvertising_request k m) ! 4)
       + 256 * unat (SRequest_addAdvertising_bytes (addAdvertising_request k m) ! 5) =
       length (drop 6 (SRequest_addAdvertising_bytes (addAdvertising_request k m)))"
proof -
  have "dataSize (addAdvertising_request k m) = 59"
    and "code (addAdvertising_request k m) = EAddAdvertisingCommand k"
    and "controllerId (addAdvertising_request k m) = controllerIndex m"
    by (simp_all add: addAdvertising_request_eq)
  then show ?thesis
    by (simp add: SRequest_addAdvertising_bytes_eq framed length_le16
        length_SRequest_addAdvertising_payload le16_numerals)
qed

text \<open>
  Claim C1. For every frame the facade builds (by \<open>setName\<close>, by \<open>setState\<close> and so
  by each of its callers, and by \<open>addAdvertising\<close>) the payload length of the header
  is the exact number of payload bytes that follow the header, the header not counted:
  the frame is the three 2-byte header fields, then the payload, with nothing between
  them, and the length read back from bytes 4 and 5 of the frame is the number of bytes
  after the first six. These frames are the ones handed to the transport.
\<close>

theorem payloadLength_is_payload_size:
  "unat (dataSize (setName_request k m a b)) = length (SRequest_setName_payload (setName_request k m a b))
   \<and> SRequest_setName_bytes (setName_request k m a b) =
       le16 (code (setName_request k m a b)) @ le16 (controllerId (setName_request k m a b))
       @ le16 (dataSize (setName_request k m a b)) @ SRequest_setName_payload (setName_request k m a b)
   \<and> length (SRequest_setName_bytes (setName_request k m a b)) = 2 + 2 + 2 + length (SRequest_setName_payload (setName_request k m a b))
   \<and> unat (SRequest_setName_bytes (setName_request k m a b) ! 4) + 256 * unat (SRequest_setName_bytes (setName_request k m a b) ! 5) =
       length (drop 6 (SRequest_setName_bytes (setName_request k m a b)))
   \<and> unat (dataSize (setState_request commandCode ci newState)) = length (SRequest_setState_payload (setState_request commandCode ci newState))
   \<and> SRequest_setState_bytes (setState_request commandCode ci newState) =
       le16 (code (setState_request commandCode ci newState)) @ le16 (controllerId (setState_request commandCode ci newState))
       @ le16 (dataSize (setState_request commandCode ci newState)) @ SRequest_setState_payload (setState_request commandCode ci newState)
   \<and> length (SRequest_setState_bytes (setState_request commandCode ci newState)) = 2 + 2 + 2 + length (SRequest_setState_payload (setState_request commandCode ci newState))
   \<and> unat (SRequest_setState_bytes (setState_request commandCode ci newState) ! 4) + 256 * unat (SRequest_setState_bytes (setState_request commandCode ci newState) ! 5) =
       length (drop 6 (SRequest_setState_bytes (setState_request commandCode ci newState)))
   \<and> unat (dataSize (addAdvertising_request k m)) = length (SRequest_addAdvertising_payload (addAdvertising_request k m))
   \<and> SRequest_addAdvertising_bytes (addAdvertising_request k m) =
       le16 (code (addAdvertising_request k m)) @ le16 (controllerId (addAdvertising_request k m))
       @ le16 (dataSize (addAdvertising_request k m)) @ SRequest_addAdvertising_payload (addAdvertising_request k m)
   \<and> length (SRequest_addAdvertising_bytes (addAdvertising_request k m)) = 2 + 2 + 2 + length (SRequest_addAdvertising_payload (addAdvertising_request k m))
   \<and> unat (SRequest_addAdvertising_bytes (addAdvertising_request k m) ! 4) + 256 * unat (SRequest_addAdvertising_bytes (addAdvertising_request k m) ! 5) =
       length (drop 6 (SRequest_addAdvertising_bytes (addAdvertising_request k m)))
   \<and> sent (snd (setName k tr m a b w)) =
       sent w @ [SRequest_setName_bytes (setName_request k m a b)]
   \<and> sent (snd (setState k tr commandCode ci newState w)) =
       sent w @ [SRequest_setState_bytes (setState_request commandCode ci newState)]
   \<and> sent (snd (addAdvertising k tr m w)) =
       sent w @ [SRequest_addAdvertising_bytes (addAdvertising_request k m)]
   \<and> sent (snd (setPowered k tr m p w)) =
       sent w @ [SRequest_setState_bytes
                   (setState_request (ESetPoweredCommand k) (controllerIndex m) (if p then 1 else 0))]
   \<and> sent (snd (setBredr k tr m p w)) =
       sent w @ [SRequest_setState_bytes
                   (setState_request (ESetBREDRCommand k) (controllerIndex m) (if p then 1 else 0))]
   \<and> sent (snd (setBondable k tr m p w)) =
       sent w @ [SRequest_setState_bytes
                   (setState_request (ESetBondableCommand k) (controllerIndex m) (if p then 1 else 0))]
   \<and> sent (snd (setConnectable k tr m p w)) =
       sent w @ [SRequest_setState_bytes
                   (setState_request (ESetConnectableCommand k) (controllerIndex m) (if p then 1 else 0))]
   \<and> sent (snd (setLE k tr m p w)) =
       sent w @ [SRequest_setState_bytes
                   (setState_request (ESetLowEnergyCommand k) (controllerIndex m) (if p then 1 else 0))]
   \<and> sent (snd (setSecureConnections k tr m newState w)) =
       sent w @ [SRequest_setState_bytes
                   (setState_request (ESetSecureConnectionsCommand k) (controllerIndex m) newState)]
   \<and> sent (snd (setAdvertising k tr m newState w)) =
       sent w @ [SRequest_setState_bytes
                   (setState_request (ESetAdvertisingCommand k) (controllerIndex m) newState)]"
  using setName_frame_layout [of k m a b] setState_frame_layout [of commandCode ci newState]
    addAdvertising_frame_layout [of k m]
    sent_setName [of k tr m a b w] sent_setState [of k tr commandCode ci newState w]
    sent_addAdvertising [of k tr m w]
    sent_setPowered_request [of k tr m p w]
    sent_setBredr_request [of k tr m p w]
    sent_setBondable_request [of k tr m p w]
    sent_setConnectable_request [of k tr m p w]
    sent_setLE_request [of k tr m p w]
    sent_setSecureConnections_request [of k tr m newState w]
    sent_setAdvertising_request [of k tr m newState w]
  by blast

section \<open>The answer of the transport\<close>

lemma decimal_digits: "decimal 0 = ''0''" "decimal (Suc 0) = ''1''"
  by code_simp+

lemma decimal_of_bool: "decimal (unat (if p then 1 else 0 :: u8)) = (if p then ''1'' else ''0'')"
  by (simp add: decimal_digits)

lemma bool_setter_run:
  assumes "unat cc < length (kCommandCodeNames k)"
  shows "setState k tr cc ci (if p then 1 else 0) w =
     (let fr = SRequest_setState_bytes (setState_request cc ci (if p then 1 else 0));
          ok = tr (sent w) fr
      in (Inr ok,
          \<lparr>synced = synced w, sent = sent w @ [fr],
           warnings = warnings w @
             (if ok then []
              else [''  + Failed to set '' @ kCommandCodeNames k ! unat cc @ '' state to: ''
                    @ (if p then ''1'' else ''0'')])\<rparr>))"
  unfolding setState_run [OF assms] Let_def decimal_of_bool ..

lemma level_setter_run:
  assumes "unat cc < length (kCommandCodeNames k)"
  shows "setState k tr cc ci ns w =
     (let fr = SRequest_setState_bytes (setState_request cc ci ns);
          ok = tr (sent w) fr
      in (Inr ok,
          \<lparr>synced = synced w, sent = sent w @ [fr],
           warnings = warnings w @
             (if ok then []
              else [''  + Failed to set '' @ kCommandCodeNames k ! unat cc @ '' state to: ''
                    @ decimal (unat ns)])\<rparr>))"
  unfolding setState_run [OF assms] Let_def ..

text \<open>
  Where the table of names has an entry for the command code, every operation hands the
  transport exactly one frame and returns the transport's answer: when the answer is
  failure the operation returns false and adds exactly one warning, which names the
  operation (for the state setters: the name of the command and the state), and when it
  is success the operation returns true and adds none. Nothing else changes, so there is
  no retry and no corrective action. For \<open>setName\<close> and \<open>addAdvertising\<close> this needs no
  condition; for the seven callers of \<open>setState\<close> it is a condition on the two absent
  headers; for \<open>setState\<close> itself it is a condition on the code the caller passes.
\<close>

theorem transport_answer_returned_and_warned:
  assumes "names_declared k" and "unat commandCode < length (kCommandCodeNames k)"
  shows
    "setName k tr m a b w =
       (let fr = SRequest_setName_bytes (setName_request k m a b);
            ok = tr (sent w) fr
        in (ok,
            \<lparr>synced = synced w, sent = sent w @ [fr],
             warnings = warnings w @ (if ok then [] else [''  + Failed to set name''])\<rparr>))
     \<and> addAdvertising k tr m w =
       (let fr = SRequest_addAdvertising_bytes (addAdvertising_request k m);
            ok = tr (sent w) fr
        in (ok,
            \<lparr>synced = synced w, sent = sent w @ [fr],
             warnings = warnings w @ (if ok then [] else [''  + Failed to start advertising with UUID''])\<rparr>))
     \<and> setState k tr commandCode ci newState w =
       (let fr = SRequest_setState_bytes (setState_request commandCode ci newState);
            ok = tr (sent w) fr
        in (Inr ok,
            \<lparr>synced = synced w, sent = sent w @ [fr],
             warnings = warnings w @ (if ok then [] else [''  + Failed to set '' @ kCommandCodeNames k ! unat commandCode
                  @ '' state to: '' @ decimal (unat newState)])\<rparr>))
     \<and> setPowered k tr m p w =
       (let fr = SRequest_setState_bytes
                   (setState_request (ESetPoweredCommand k) (controllerIndex m) (if p then 1 else 0));
            ok = tr (sent w) fr
        in (Inr ok,
            \<lparr>synced = synced w, sent = sent w @ [fr],
             warnings = warnings w @ (if ok then [] else [''  + Failed to set '' @ kCommandCodeNames k ! unat (ESetPoweredCommand k)
                  @ '' state to: '' @ (if p then ''1'' else ''0'')])\<rparr>))
     \<and> setBredr k tr m p w =
       (let fr = SRequest_setState_bytes
                   (setState_request (ESetBREDRCommand k) (controllerIndex m) (if p then 1 else 0));
            ok = tr (sent w) fr
        in (Inr ok,
            \<lparr>synced = synced w, sent = sent w @ [fr],
             warnings = warnings w @ (if ok then [] else [''  + Failed to set '' @ kCommandCodeNames k ! unat (ESetBREDRCommand k)
                  @ '' state to: '' @ (if p then ''1'' else ''0'')])\<rparr>))
     \<and> setBondable k tr m p w =
       (let fr = SRequest_setState_bytes
                   (setState_request (ESetBondableCommand k) (controllerIndex m) (if p then 1 else 0));
            ok = tr (sent w) fr
        in (Inr ok,
            \<lparr>synced = synced w, sent = sent w @ [fr],
             warnings = warnings w @ (if ok then [] else [''  + Failed to set '' @ kCommandCodeNames k ! unat (ESetBondableCommand k)
                  @ '' state to: '' @ (if p then ''1'' else ''0'')])\<rparr>))
     \<and> setConnectable k tr m p w =
       (let fr = SRequest_setState_bytes
                   (setState_request (ESetConnectableCommand k) (controllerIndex m) (if p then 1 else 0));
            ok = tr (sent w) fr
        in (Inr ok,
            \<lparr>synced = synced w, sent = sent w @ [fr],
             warnings = warnings w @ (if ok then [] else [''  + Failed to set '' @ kCommandCodeNames k ! unat (ESetConnectableCommand k)
                  @ '' state to: '' @ (if p then ''1'' else ''0'')])\<rparr>))
     \<and> setLE k tr m p w =
       (let fr = SRequest_setState_bytes
                   (setState_request (ESetLowEnergyCommand k) (controllerIndex m) (if p then 1 else 0));
            ok = tr (sent w) fr
        in (Inr ok,
            \<lparr>synced = synced w, sent = sent w @ [fr],
             warnings = warnings w @ (if ok then [] else [''  + Failed to set '' @ kCommandCodeNames k ! unat (ESetLowEnergyCommand k)
                  @ '' state to: '' @ (if p then ''1'' else ''0'')])\<rparr>))
     \<and> setSecureConnections k tr m newState w =
       (let fr = SRequest_setState_bytes
                   (setState_request (ESetSecureConnectionsCommand k) (controllerIndex m) newState);
            ok = tr (sent w) fr
        in (Inr ok,
            \<lparr>synced = synced w, sent = sent w @ [fr],
             warnings = warnings w @ (if ok then [] else [''  + Failed to set '' @ kCommandCodeNames k ! unat (ESetSecureConnectionsCommand k)
                  @ '' state to: '' @ decimal (unat newState)])\<rparr>))
     \<and> setAdvertising k tr m newState w =
       (let fr = SRequest_setState_bytes
                   (setState_request (ESetAdvertisingCommand k) (controllerIndex m) newState);
            ok = tr (sent w) fr
        in (Inr ok,
            \<lparr>synced = synced w, sent = sent w @ [fr],
             warnings = warnings w @ (if ok then [] else [''  + Failed to set '' @ kCommandCodeNames k ! unat (ESetAdvertisingCommand k)
                  @ '' state to: '' @ decimal (unat newState)])\<rparr>))"
proof -
  have a: "setName k tr m a b w =
       (let fr = SRequest_setName_bytes (setName_request k m a b);
            ok = tr (sent w) fr
        in (ok,
            \<lparr>synced = synced w, sent = sent w @ [fr],
             warnings = warnings w @ (if ok then [] else [''  + Failed to set name''])\<rparr>))"
    unfolding Let_def by (rule setName_run)
  have b: "addAdvertising k tr m w =
       (let fr = SRequest_addAdvertising_bytes (addAdvertising_request k m);
            ok = tr (sent w) fr
        in (ok,
            \<lparr>synced = synced w, sent = sent w @ [fr],
             warnings = warnings w @
               (if ok then [] else [''  + Failed to start advertising with UUID''])\<rparr>))"
    unfolding Let_def by (rule addAdvertising_run)
  from assms(1) have
    n1: "unat (ESetPoweredCommand k) < length (kCommandCodeNames k)" and
    n2: "unat (ESetBREDRCommand k) < length (kCommandCodeNames k)" and
    n3: "unat (ESetSecureConnectionsCommand k) < length (kCommandCodeNames k)" and
    n4: "unat (ESetBondableCommand k) < length (kCommandCodeNames k)" and
    n5: "unat (ESetConnectableCommand k) < length (kCommandCodeNames k)" and
    n6: "unat (ESetLowEnergyCommand k) < length (kCommandCodeNames k)" and
    n7: "unat (ESetAdvertisingCommand k) < length (kCommandCodeNames k)"
    by (simp_all add: names_declared_def)
  note c = level_setter_run [OF assms(2), of tr ci newState w]
  note d1 = bool_setter_run [OF n1, of tr "controllerIndex m" p w, folded setPowered_def]
  note d2 = bool_setter_run [OF n2, of tr "controllerIndex m" p w, folded setBredr_def]
  note d3 = bool_setter_run [OF n4, of tr "controllerIndex m" p w, folded setBondable_def]
  note d4 = bool_setter_run [OF n5, of tr "controllerIndex m" p w, folded setConnectable_def]
  note d5 = bool_setter_run [OF n6, of tr "controllerIndex m" p w, folded setLE_def]
  note e1 = level_setter_run [OF n3, of tr "controllerIndex m" newState w,
      folded setSecureConnections_def]
  note e2 = level_setter_run [OF n7, of tr "controllerIndex m" newState w,
      folded setAdvertising_def]
  from a b c d1 d2 d3 d4 d5 e1 e2 show ?thesis
    by (intro conjI)
qed

lemma decimal_2: "decimal 2 = ''2''"
  by code_simp

theorem transport_answer_returned_and_warned_witness:
  "names_declared example_Mgmt_h
   \<and> setName example_Mgmt_h (\<lambda>_ _. False) \<lparr>controllerIndex = 0\<rparr> ''ggk'' ''ggk'' world0 =
       (False,
        \<lparr>synced = [],
         sent = [SRequest_setName_bytes
                   (setName_request example_Mgmt_h \<lparr>controllerIndex = 0\<rparr> ''ggk'' ''ggk'')],
         warnings = [''  + Failed to set name'']\<rparr>)
   \<and> setPowered example_Mgmt_h (\<lambda>_ _. False) \<lparr>controllerIndex = 0\<rparr> True world0 =
       (Inr False,
        \<lparr>synced = [], sent = [[5, 0, 0, 0, 1, 0, 1]],
         warnings = [''  + Failed to set Command state to: 1'']\<rparr>)
   \<and> setAdvertising example_Mgmt_h (\<lambda>_ _. False) \<lparr>controllerIndex = 0\<rparr> 2 world0 =
       (Inr False,
        \<lparr>synced = [], sent = [[0x29, 0, 0, 0, 1, 0, 2]],
         warnings = [''  + Failed to set Command state to: 2'']\<rparr>)
   \<and> setPowered example_Mgmt_h (\<lambda>_ _. True) \<lparr>controllerIndex = 0\<rparr> True world0 =
       (Inr True, \<lparr>synced = [], sent = [[5, 0, 0, 0, 1, 0, 1]], warnings = []\<rparr>)
   \<and> fst (addAdvertising example_Mgmt_h (\<lambda>_ _. False) \<lparr>controllerIndex = 0\<rparr> world0) = False
   \<and> warnings (snd (addAdvertising example_Mgmt_h (\<lambda>_ _. False) \<lparr>controllerIndex = 0\<rparr> world0)) =
       [''  + Failed to start advertising with UUID'']"
proof -
  have n: "names_declared example_Mgmt_h"
    by (simp add: names_declared_def example_Mgmt_h_def)
  have c: "unat (5 :: u16) < length (kCommandCodeNames example_Mgmt_h)"
    by (simp add: example_Mgmt_h_def)
  note f = transport_answer_returned_and_warned [OF n c,
      of "\<lambda>_ _. False" "\<lparr>controllerIndex = 0\<rparr>" "''ggk''" "''ggk''" world0 0 2 True]
  note t = transport_answer_returned_and_warned [OF n c,
      of "\<lambda>_ _. True" "\<lparr>controllerIndex = 0\<rparr>" "''ggk''" "''ggk''" world0 0 2 True]
  have e: "ESetPoweredCommand example_Mgmt_h = 5" "ESetAdvertisingCommand example_Mgmt_h = 0x29"
    "kCommandCodeNames example_Mgmt_h ! 5 = ''Command''"
    "kCommandCodeNames example_Mgmt_h ! 41 = ''Command''"
    by (simp_all add: example_Mgmt_h_def)
  from n f t show ?thesis
    by (simp add: Let_def world0_def e SRequest_setState_bytes_eq le16_def decimal_2)
qed

section \<open>The controller index\<close>

text \<open>
  Claim C10. Every frame sent through the operations of a \<open>Mgmt\<close> instance
  (\<open>setName\<close>, the boolean setters, \<open>setAdvertising\<close>, \<open>setSecureConnections\<close>,
  \<open>addAdvertising\<close>) carries in its header the controller index given to the
  constructor. Only the generic \<open>setState\<close> takes the index as an argument, and its
  frame carries that argument, which is the instance's index only when the two are equal.
\<close>

theorem controllerIndex_in_every_frame:
  assumes "Mgmt_new ci w0 = (m, w1)"
  shows
    "controllerIndex m = ci
     \<and> controllerId (setName_request k m a b) = ci
     \<and> controllerId (addAdvertising_request k m) = ci
     \<and> sent (snd (setName k tr m a b w)) =
       sent w @ [le16 (ESetLocalNameCommand k) @ le16 ci @ [4, 1]
                 @ SRequest_setName_payload (setName_request k m a b)]
     \<and> sent (snd (addAdvertising k tr m w)) =
       sent w @ [le16 (EAddAdvertisingCommand k) @ le16 ci @ [59, 0]
                 @ SRequest_addAdvertising_payload (addAdvertising_request k m)]
     \<and> sent (snd (setPowered k tr m p w)) =
       sent w @ [le16 (ESetPoweredCommand k) @ le16 ci @ [1, 0] @ [if p then 1 else 0]]
     \<and> sent (snd (setBredr k tr m p w)) =
       sent w @ [le16 (ESetBREDRCommand k) @ le16 ci @ [1, 0] @ [if p then 1 else 0]]
     \<and> sent (snd (setBondable k tr m p w)) =
       sent w @ [le16 (ESetBondableCommand k) @ le16 ci @ [1, 0] @ [if p then 1 else 0]]
     \<and> sent (snd (setConnectable k tr m p w)) =
       sent w @ [le16 (ESetConnectableCommand k) @ le16 ci @ [1, 0] @ [if p then 1 else 0]]
     \<and> sent (snd (setLE k tr m p w)) =
       sent w @ [le16 (ESetLowEnergyCommand k) @ le16 ci @ [1, 0] @ [if p then 1 else 0]]
     \<and> sent (snd (setSecureConnections k tr m newState w)) =
       sent w @ [le16 (ESetSecureConnectionsCommand k) @ le16 ci @ [1, 0] @ [newState]]
     \<and> sent (snd (setAdvertising k tr m newState w)) =
       sent w @ [le16 (ESetAdvertisingCommand k) @ le16 ci @ [1, 0] @ [newState]]
     \<and> sent (snd (setState k tr commandCode other newState w)) =
       sent w @ [le16 commandCode @ le16 other @ [1, 0] @ [newState]]
     \<and> (le16 other = le16 ci) = (other = ci)"
proof -
  from assms have m: "controllerIndex m = ci"
    by (auto simp: Mgmt_new_def)
  have adv: "controllerId (addAdvertising_request k m) = controllerIndex m"
    by (simp add: addAdvertising_request_eq)
  have st: "sent (snd (setState k tr commandCode other newState w)) =
       sent w @ [le16 commandCode @ le16 other @ [1, 0] @ [newState]]"
    by (simp only: sent_setState SRequest_setState_bytes_eq)
  show ?thesis
    unfolding m [symmetric]
    using st
    by (simp only: header_setName_request adv
        sent_setName SRequest_setName_bytes_eq
        sent_addAdvertising SRequest_addAdvertising_bytes_eq
        sent_setPowered sent_setBredr sent_setBondable sent_setConnectable sent_setLE
        sent_setSecureConnections sent_setAdvertising le16_inject simp_thms)
qed

theorem controllerIndex_in_every_frame_witness:
  "Mgmt_new 7 world0 = (\<lparr>controllerIndex = 7\<rparr>, \<lparr>synced = [7], sent = [], warnings = []\<rparr>)
   \<and> sent (snd (setPowered example_Mgmt_h (\<lambda>_ _. True) \<lparr>controllerIndex = 7\<rparr> True world0)) =
       [[5, 0, 7, 0, 1, 0, 1]]
   \<and> sent (snd (setAdvertising example_Mgmt_h (\<lambda>_ _. True) \<lparr>controllerIndex = 7\<rparr> 1 world0)) =
       [[0x29, 0, 7, 0, 1, 0, 1]]
   \<and> take 6 (last (sent (snd (addAdvertising example_Mgmt_h (\<lambda>_ _. True)
         \<lparr>controllerIndex = 7\<rparr> world0)))) = [0x3E, 0, 7, 0, 59, 0]
   \<and> take 6 (last (sent (snd (setName example_Mgmt_h (\<lambda>_ _. True)
         \<lparr>controllerIndex = 7\<rparr> ''ggk'' ''ggk'' world0)))) = [0x0F, 0, 7, 0, 4, 1]"
proof -
  have h: "Mgmt_new 7 world0 =
      (\<lparr>controllerIndex = 7\<rparr>, \<lparr>synced = [7], sent = [], warnings = []\<rparr>)"
    by (simp add: Mgmt_new_def sync_def world0_def)
  from h controllerIndex_in_every_frame [OF h, of example_Mgmt_h "''ggk''" "''ggk''"
      "\<lambda>_ _. True" world0 True 1]
  show ?thesis
    by (simp add: example_Mgmt_h_def world0_def le16_def)
qed

section \<open>A refused frame under a code outside the table\<close>

text \<open>
  Claim C8. Every public operation whose frame the transport refuses returns false and
  adds exactly one warning that names the operation, and one whose frame is accepted
  returns true and adds none. The public \<open>setState\<close> takes any 16-bit command code, and
  line 113 reads \<^verbatim>\<open>kCommandCodeNames[commandCode]\<close> unchecked to build the warning. With
  a table of \<open>0x44\<close> entries, the code \<open>0x0044\<close> and a refusing transport, the frame is
  sent, the read is outside the table, no warning is added and false is not returned.
\<close>

theorem setState_refused_outside_table:
  "setState example_Mgmt_h refusing 0x0044 0 1 world0 =
     (Inl OutOfBoundsRead,
      \<lparr>synced = [], sent = [[0x44, 0, 0, 0, 1, 0, 1]], warnings = []\<rparr>)"
  by (simp add: setState_def sendCommand_def refusing_def example_Mgmt_h_def world0_def
      SRequest_setState_bytes_eq le16_def)

end
